theory Spec2Isabelle
  imports Complex_Main "HOL-Library.Sublist"
begin

section \<open>Exceptions of the library\<close>

text \<open>
  Every \<^verbatim>\<open>raise\<close> of the sources is a value of this type. The first five are the
  exception classes the sources raise (those of \<^verbatim>\<open>mcnpy.errors\<close> and two built-in
  ones); \<^verbatim>\<open>RedundantDefinitionError\<close> is the one the specification names for a
  redundant definition; the others are the built-in exceptions Python raises by itself
  on the paths modelled below. Where the source gives a message, the message is kept.
\<close>

datatype error =
    TypeError string
  | ValueError string
  | MalformedInputError string
  | NumberConflictError
  | IllegalState string
  | RedundantDefinitionError
  | AttributeError string
  | StopIteration
  | IndexError string

type_synonym mcnp_version = "int list"

section \<open>MCNP\_Card: comments, input lines and the mutated flag\<close>

text \<open>
  \<^verbatim>\<open>Comment\<close> is imported from \<^verbatim>\<open>mcnpy.input_parser.mcnp_input\<close>; the card reads its
  attributes \<^verbatim>\<open>is_cutting_comment\<close> and \<^verbatim>\<open>card_line\<close> and calls its
  \<^verbatim>\<open>format_for_mcnp_input\<close>, which is a parameter \<open>cfmt\<close> of every function below.
\<close>

record comment =
  is_cutting_comment :: bool
  card_line :: int
  comment_text :: "string list"

type_synonym comment_format = "comment \<Rightarrow> mcnp_version \<Rightarrow> string list"

record mcnp_card =
  input_lines :: "string list"
  mutated :: bool
  comments :: "comment list"

text \<open>The three shapes \<^verbatim>\<open>__init__\<close> accepts for its \<^verbatim>\<open>comments\<close> argument.\<close>

datatype comments_arg = CommentList "comment list" | SingleComment comment | NoComments

text \<open>
  \<^verbatim>\<open>MCNP_Card.__init__\<close>: \<open>Some ls\<close> is an input card with lines \<open>ls\<close>, \<open>None\<close> is
  a card built with no input. The final \<^verbatim>\<open>if comments\<close> is Python truthiness (a
  non-empty list, or a comment object). With an input card a single comment is
  wrapped in a list; without one the source stores the comment object itself, which
  the model keeps as the list of that one comment.
\<close>

definition MCNP_Card_init :: "string list option \<Rightarrow> comments_arg \<Rightarrow> mcnp_card" where
  "MCNP_Card_init input_card cs =
     (case input_card of
        Some ls \<Rightarrow>
          \<lparr>input_lines = ls, mutated = False,
           comments = (case cs of CommentList l \<Rightarrow> l | SingleComment c \<Rightarrow> [c] | NoComments \<Rightarrow> [])\<rparr>
      | None \<Rightarrow>
          \<lparr>input_lines = [], mutated = True,
           comments = (case cs of CommentList l \<Rightarrow> l | SingleComment c \<Rightarrow> [c] | NoComments \<Rightarrow> [])\<rparr>)"

text \<open>The \<^verbatim>\<open>comments\<close> setter: marks the card mutated.\<close>

definition set_comments :: "mcnp_card \<Rightarrow> comment list \<Rightarrow> mcnp_card" where
  "set_comments self cs = self\<lparr>mutated := True, comments := cs\<rparr>"

text \<open>
  \<^verbatim>\<open>MCNP_Card.format_for_mcnp_input\<close> (the base method): the first comment only when
  the card is not mutated, every comment otherwise.
\<close>

definition card_format_for_mcnp_input ::
  "comment_format \<Rightarrow> 'a mcnp_card_scheme \<Rightarrow> mcnp_version \<Rightarrow> string list" where
  "card_format_for_mcnp_input cfmt self v =
     (if comments self \<noteq> [] then
        (if \<not> mutated self then cfmt (hd (comments self)) v
         else concat (map (\<lambda>c. cfmt c v) (comments self)))
      else [])"

text \<open>
  \<^verbatim>\<open>_format_for_mcnp_unmutated\<close>. The first loop fills \<^verbatim>\<open>comments_dict\<close>, a later
  cutting comment with the same \<^verbatim>\<open>card_line\<close> replacing an earlier one; the second
  loop walks \<^verbatim>\<open>enumerate(self.input_lines)\<close> and appends to \<^verbatim>\<open>ret\<close>.
\<close>

fun fill_comments_dict :: "comment list \<Rightarrow> (int \<rightharpoonup> comment) \<Rightarrow> (int \<rightharpoonup> comment)" where
  "fill_comments_dict [] d = d"
| "fill_comments_dict (c # cs) d =
     fill_comments_dict cs (if is_cutting_comment c then d(card_line c \<mapsto> c) else d)"

fun replay_lines ::
  "comment_format \<Rightarrow> mcnp_version \<Rightarrow> (int \<rightharpoonup> comment) \<Rightarrow> int \<Rightarrow> string list \<Rightarrow> string list
     \<Rightarrow> string list" where
  "replay_lines cfmt v d i [] ret = ret"
| "replay_lines cfmt v d i (line # ls) ret =
     replay_lines cfmt v d (i + 1) ls
       ((case d i of Some c \<Rightarrow> ret @ cfmt c v | None \<Rightarrow> ret) @ [line])"

definition format_for_mcnp_unmutated ::
  "comment_format \<Rightarrow> 'a mcnp_card_scheme \<Rightarrow> mcnp_version \<Rightarrow> string list" where
  "format_for_mcnp_unmutated cfmt self v =
     (if comments self \<noteq> [] then
        replay_lines cfmt v (fill_comments_dict (comments self) Map.empty) 0 (input_lines self)
          ([] @ cfmt (hd (comments self)) v)
      else replay_lines cfmt v Map.empty 0 (input_lines self) [])"

text \<open>
  The property as the specification words it: the input lines in order, and before the
  line with index \<open>i\<close> every cutting comment whose \<^verbatim>\<open>card_line\<close> is \<open>i\<close>.
\<close>

definition cutting_at :: "comment list \<Rightarrow> int \<Rightarrow> comment list" where
  "cutting_at cs i = filter (\<lambda>c. is_cutting_comment c \<and> card_line c = i) cs"

definition spec_replay :: "comment_format \<Rightarrow> mcnp_version \<Rightarrow> comment list \<Rightarrow> string list \<Rightarrow> string list" where
  "spec_replay cfmt v cs ls =
     concat (map (\<lambda>(i, line). concat (map (\<lambda>c. cfmt c v) (cutting_at cs (int i))) @ [line])
               (enumerate 0 ls))"

text \<open>What the code replays: only the last cutting comment registered for an index.\<close>

definition last_cutting_at :: "comment list \<Rightarrow> int \<Rightarrow> comment option" where
  "last_cutting_at cs i = (case cutting_at cs i of [] \<Rightarrow> None | c # rest \<Rightarrow> Some (last (c # rest)))"

definition leading_comment :: "comment_format \<Rightarrow> mcnp_version \<Rightarrow> comment list \<Rightarrow> string list" where
  "leading_comment cfmt v cs = (case cs of [] \<Rightarrow> [] | c # _ \<Rightarrow> cfmt c v)"

definition code_replay :: "comment_format \<Rightarrow> mcnp_version \<Rightarrow> comment list \<Rightarrow> string list \<Rightarrow> string list" where
  "code_replay cfmt v cs ls =
     leading_comment cfmt v cs @
     concat (map (\<lambda>(i, line).
                    (case last_cutting_at cs (int i) of None \<Rightarrow> [] | Some c \<Rightarrow> cfmt c v) @ [line])
               (enumerate 0 ls))"

text \<open>A comment formatter for the concrete examples: the comment's own text.\<close>

definition plain_comment :: comment_format where
  "plain_comment c v = comment_text c"

text \<open>
  A card of two lines, read from its input with the comment before it and a cutting
  comment before its second line.
\<close>

definition commented_card :: mcnp_card where
  "commented_card =
     MCNP_Card_init (Some [''m1 1001.80c 0.5'', ''     8016.80c 0.5''])
       (CommentList
          [\<lparr>is_cutting_comment = False, card_line = 0, comment_text = [''c fuel'']\<rparr>,
           \<lparr>is_cutting_comment = True, card_line = 1, comment_text = [''c oxygen'']\<rparr>])"

section \<open>Numbered objects: the number setter and clone\<close>

text \<open>The Python values a caller can hand to a setter.\<close>

datatype pyval = PyInt int | PyBool bool | PyFloat rat | PyStr string | PyNone

text \<open>\<^verbatim>\<open>isinstance(v, int)\<close>: \<^verbatim>\<open>bool\<close> is a subclass of \<^verbatim>\<open>int\<close>.\<close>

fun is_int :: "pyval \<Rightarrow> bool" where
  "is_int (PyInt n) = True"
| "is_int (PyBool b) = True"
| "is_int v = False"

fun int_value :: "pyval \<Rightarrow> int" where
  "int_value (PyInt n) = n"
| "int_value (PyBool b) = (if b then 1 else 0)"
| "int_value v = 0"

text \<open>
  A material. The fields of \<^verbatim>\<open>MCNP_Card\<close> come first; the others are the attributes
  \<^verbatim>\<open>Material.__init__\<close> sets. \<^verbatim>\<open>_old_material_number\<close>, \<^verbatim>\<open>_is_atom_fraction\<close> and
  \<^verbatim>\<open>_parameter_string\<close> exist only on a material built from an input, so they are
  options. \<^verbatim>\<open>_material_components\<close> is a dict keyed by isotope: an association list
  in insertion order, isotopes compared by value. A fraction is a Python float; only
  its order against 0 and its absolute value are used, which are exact, so a finite
  float is the rational it denotes (NaN and the infinities are outside the model).
\<close>

record ('i, 't) material = mcnp_card +
  material_number :: int
  old_material_number :: "int option"
  material_components :: "('i \<times> rat) list"
  thermal_scattering :: "'t option"
  is_atom_fraction :: "bool option"
  parameter_string :: "string option"

text \<open>
  Modelled from the spec: \<^verbatim>\<open>check_number\<close> of the problem's collection (the collection
  class is not among the sources): it fails with \<^verbatim>\<open>NumberConflictError\<close> if a live
  entity of the same kind already holds the number. A collection is the list of the
  numbers its live entities hold.
\<close>

definition check_number :: "int list \<Rightarrow> int \<Rightarrow> error option" where
  "check_number held n = (if n \<in> set held then Some NumberConflictError else None)"

text \<open>
  Modelled from the spec: \<^verbatim>\<open>request_number(start, step)\<close> scans
  \<open>start, start + step, \<dots>\<close> without bound and returns the first value not held. The scan
  need not end (step 0 on a held number), so not returning is \<open>None\<close>.
\<close>

partial_function (option) request_number :: "int list \<Rightarrow> int \<Rightarrow> int \<Rightarrow> int option" where
  "request_number held n step =
     (if n \<in> set held then request_number held (n + step) step else Some n)"

text \<open>
  The \<^verbatim>\<open>number\<close> setter of \<^verbatim>\<open>Material\<close>. \<open>problem\<close> is \<^verbatim>\<open>self._problem\<close>: \<open>None\<close>
  when the material belongs to no problem, \<open>Some held\<close> for a problem whose materials
  hold the numbers \<open>held\<close>. The result is the material after the call and the
  exception raised, if any.
\<close>

definition number_setter ::
  "int list option \<Rightarrow> ('i, 't) material \<Rightarrow> pyval \<Rightarrow> ('i, 't) material \<times> error option" where
  "number_setter problem self number =
     (if \<not> is_int number then (self, Some (TypeError ''number must be an int''))
      else if int_value number \<le> 0 then (self, Some (ValueError ''number must be > 0''))
      else (case (case problem of Some held \<Rightarrow> check_number held (int_value number) | None \<Rightarrow> None) of
              Some e \<Rightarrow> (self, Some e)
            | None \<Rightarrow> (self\<lparr>mutated := True, material_number := int_value number\<rparr>, None)))"

text \<open>A sequence of calls of the setter, each seeing the problem as it is then.\<close>

fun set_numbers ::
  "('i, 't) material \<Rightarrow> (int list option \<times> pyval) list \<Rightarrow> ('i, 't) material" where
  "set_numbers m [] = m"
| "set_numbers m ((problem, v) # calls) = set_numbers (fst (number_setter problem m v)) calls"

text \<open>
  The problem a material is linked to, seen from the material: whether the material
  is itself one of the problem's materials, and the numbers the other materials of the
  problem hold.

  Modelled from the spec: the numbers a collection checks against are those its live
  entities hold at the time of the check (the collection class is not among the
  sources). So a material that is in the collection counts with its current number.
\<close>

record problem =
  holds_self :: bool
  other_numbers :: "int list"

definition held_numbers :: "problem \<Rightarrow> ('i, 't) material \<Rightarrow> int list" where
  "held_numbers p self =
     (if holds_self p then material_number self # other_numbers p else other_numbers p)"

text \<open>\<^verbatim>\<open>ret.number = number\<close> for a material \<open>ret\<close> and the problem it is linked to, if any.\<close>

definition assign_number ::
  "problem option \<Rightarrow> ('i, 't) material \<Rightarrow> int \<Rightarrow> ('i, 't) material \<times> error option" where
  "assign_number problem ret number =
     number_setter (map_option (\<lambda>p. held_numbers p ret) problem) ret (PyInt number)"

text \<open>
  The loop of \<^verbatim>\<open>Numbered_MCNP_Object.clone\<close>, for a material: over
  \<^verbatim>\<open>itertools.count(starting_number, step=1)\<close> it tries one number after the other and
  swallows \<^verbatim>\<open>NumberConflictError\<close> only.
\<close>

function clone_scan ::
  "problem option \<Rightarrow> ('i, 't) material \<Rightarrow> int \<Rightarrow> error + ('i, 't) material" where
  "clone_scan problem ret n =
     (if snd (assign_number problem ret n) = None
        then Inr (fst (assign_number problem ret n))
      else if snd (assign_number problem ret n) = Some NumberConflictError
        then clone_scan problem (fst (assign_number problem ret n)) (n + 1)
      else Inl (the (snd (assign_number problem ret n))))"
  by pat_completeness auto

lemma assign_number_conflict:
  "snd (assign_number problem ret n) = Some NumberConflictError \<Longrightarrow>
     fst (assign_number problem ret n) = ret
     \<and> (\<exists>p. problem = Some p \<and> n \<in> set (held_numbers p ret))"
  by (auto simp: assign_number_def number_setter_def check_number_def
      split: if_splits option.splits)

lemma length_filter_above:
  "n \<in> set held \<Longrightarrow>
     length (filter (\<lambda>m. n + 1 \<le> m) held) < length (filter (\<lambda>m. (n::int) \<le> m) held)"
proof (induction held)
  case Nil
  then show ?case by simp
next
  case (Cons h held)
  have le: "length (filter (\<lambda>m. n + 1 \<le> m) held) \<le> length (filter (\<lambda>m. n \<le> m) held)"
    by (induction held) auto
  show ?case
  proof (cases "h = n")
    case True
    with le show ?thesis by simp
  next
    case False
    with Cons have "n \<in> set held" by simp
    with Cons.IH show ?thesis by auto
  qed
qed

termination clone_scan
proof (relation "measure (\<lambda>(problem, ret, n).
          length (filter (\<lambda>m. n \<le> m)
            (case problem of Some p \<Rightarrow> held_numbers p ret | None \<Rightarrow> [])))")
  show "wf (measure (\<lambda>(problem, ret, n).
          length (filter (\<lambda>m. n \<le> m)
            (case problem of Some p \<Rightarrow> held_numbers p ret | None \<Rightarrow> []))))"
    by simp
next
  fix problem :: "problem option" and ret :: "('i, 't) material" and n :: int
  assume "snd (assign_number problem ret n) = Some NumberConflictError"
  then obtain p where "fst (assign_number problem ret n) = ret" "problem = Some p"
    "n \<in> set (held_numbers p ret)"
    using assign_number_conflict by blast
  then show "((problem, fst (assign_number problem ret n), n + 1), problem, ret, n)
      \<in> measure (\<lambda>(problem, ret, n).
          length (filter (\<lambda>m. n \<le> m)
            (case problem of Some p \<Rightarrow> held_numbers p ret | None \<Rightarrow> [])))"
    by (simp add: length_filter_above)
qed

text \<open>
  \<^verbatim>\<open>clone\<close>. \<^verbatim>\<open>copy.deepcopy\<close> gives a material equal to the original; the problem
  is reached from the material, so it is copied with it, and \<^verbatim>\<open>ret._problem\<close> is that
  copy, in which the clone stands where the original stood in its problem. \<open>problem\<close>
  is the problem of the original, which describes the copy too: \<open>holds_self\<close> says that
  the original is one of the materials of its problem, and so the clone one of the
  materials of the copy.

  With a problem the clone first gets the number \<^verbatim>\<open>request_number\<close> returns, through
  the setter; an exception of that assignment is not caught. Then the loop runs, in
  either case. A \<^verbatim>\<open>request_number\<close> that does not return makes \<^verbatim>\<open>clone\<close> not return:
  \<open>None\<close>.
\<close>

definition clone ::
  "problem option \<Rightarrow> ('i, 't) material \<Rightarrow> int \<Rightarrow> int \<Rightarrow> (error + ('i, 't) material) option" where
  "clone problem self starting_number step =
     (case problem of
        None \<Rightarrow> Some (clone_scan problem self starting_number)
      | Some p \<Rightarrow>
          (case request_number (held_numbers p self) starting_number step of
             None \<Rightarrow> None
           | Some k \<Rightarrow>
               (case snd (assign_number problem self k) of
                  Some e \<Rightarrow> Some (Inl e)
                | None \<Rightarrow>
                    Some (clone_scan problem (fst (assign_number problem self k))
                            starting_number))))"

text \<open>
  The scan the specification describes for \<^verbatim>\<open>clone\<close>: the first of
  \<open>start, start + step, \<dots>\<close> that no live entity holds. For a positive step it is among
  the first \<open>length held + 1\<close> candidates.
\<close>

definition spec_clone_number :: "int list \<Rightarrow> int \<Rightarrow> int \<Rightarrow> int option" where
  "spec_clone_number held start step =
     find (\<lambda>n. n \<notin> set held) (map (\<lambda>k. start + int k * step) [0..<length held + 1])"

section \<open>LatticeInput\<close>

text \<open>
  Modelled from the spec: the \<^verbatim>\<open>Lattice\<close> enumeration (its module is not among the
  sources); the messages of the sources say a lattice is 1 or 2.
\<close>

datatype lattice = HEXAHEDRA | HEXAGONAL

definition Lattice :: "int \<Rightarrow> error + lattice" where
  "Lattice n = (if n = 1 then Inr HEXAHEDRA else if n = 2 then Inr HEXAGONAL
                else Inl (ValueError ''not a valid Lattice''))"

text \<open>An entry of a \<^verbatim>\<open>LAT\<close> data input: a lattice, or the \<^verbatim>\<open>Jump\<close> placeholder.\<close>

datatype lattice_entry = Entry lattice | Jump

text \<open>
  \<^verbatim>\<open>self._lattice\<close> is \<^verbatim>\<open>None\<close>, one lattice (an input in a cell), or a list of
  entries (an input of the data block).
\<close>

datatype lattice_field = NoLattice | OneLattice lattice | LatticeList "lattice_entry list"

record lattice_input =
  in_cell_block :: bool
  set_in_cell_block :: bool
  lat_mutated :: bool
  lattice_value :: lattice_field
  starting_num_cells :: "nat option"

text \<open>A cell, as far as \<^verbatim>\<open>LatticeInput\<close> reads it: the cell's own lattice input.\<close>

record cell =
  cell_lattice :: lattice_input

text \<open>The values the \<^verbatim>\<open>lattice\<close> setter can receive.\<close>

datatype lattice_arg = ArgLattice lattice | ArgInt int | ArgNone | ArgOther

text \<open>The \<^verbatim>\<open>lattice\<close> setter of \<^verbatim>\<open>LatticeInput\<close>.\<close>

definition lattice_setter :: "lattice_input \<Rightarrow> lattice_arg \<Rightarrow> error + lattice_input" where
  "lattice_setter self v =
     (case v of
        ArgOther \<Rightarrow> Inl (TypeError ''lattice must be set to a Lattice, or an integer, {value} given'')
      | ArgInt n \<Rightarrow>
          (case Lattice n of
             Inl e \<Rightarrow> Inl (ValueError ''Value: {value} is not a valid Lattice number'')
           | Inr l \<Rightarrow> Inr (self\<lparr>lat_mutated := True, lattice_value := OneLattice l\<rparr>))
      | ArgLattice l \<Rightarrow> Inr (self\<lparr>lat_mutated := True, lattice_value := OneLattice l\<rparr>)
      | ArgNone \<Rightarrow> Inr (self\<lparr>lat_mutated := True, lattice_value := NoLattice\<rparr>))"

text \<open>
  Modelled from the spec: \<^verbatim>\<open>cell.lattice = value\<close> (the cell class is not among the
  sources) hands the value to the setter of the cell's own lattice input.
\<close>

definition cell_set_lattice :: "cell \<Rightarrow> lattice \<Rightarrow> error + cell" where
  "cell_set_lattice c l =
     (case lattice_setter (cell_lattice c) (ArgLattice l) of
        Inl e \<Rightarrow> Inl e
      | Inr li \<Rightarrow> Inr (c\<lparr>cell_lattice := li\<rparr>))"

text \<open>
  Modelled from the spec: \<^verbatim>\<open>_check_redundant_definitions\<close> (defined in the absent
  \<^verbatim>\<open>CellModifierInput\<close>): the aggregate form is refused when a cell already carries
  the attribute inline.
\<close>

definition check_redundant_definitions :: "cell list \<Rightarrow> error option" where
  "check_redundant_definitions cells =
     (if list_ex (\<lambda>c. set_in_cell_block (cell_lattice c)) cells
      then Some RedundantDefinitionError else None)"

text \<open>
  The loop of \<^verbatim>\<open>push_to_cells\<close> over
  \<^verbatim>\<open>itertools.zip_longest(cells, self._lattice, fillvalue=None)\<close>: the shorter side is
  filled with \<^verbatim>\<open>None\<close>. A \<^verbatim>\<open>None\<close> or \<^verbatim>\<open>Jump\<close> entry is skipped; any other entry is
  assigned to \<^verbatim>\<open>cell.lattice\<close>, which is an attribute of \<^verbatim>\<open>None\<close> once the cells
  have run out.
\<close>

fun push_pairs :: "cell list \<Rightarrow> lattice_entry list \<Rightarrow> error + cell list" where
  "push_pairs [] [] = Inr []"
| "push_pairs (c # cs) [] = (case push_pairs cs [] of Inl e \<Rightarrow> Inl e | Inr cs' \<Rightarrow> Inr (c # cs'))"
| "push_pairs [] (Jump # ls) = push_pairs [] ls"
| "push_pairs [] (Entry l # ls) =
     Inl (AttributeError ''NoneType object has no attribute lattice'')"
| "push_pairs (c # cs) (Jump # ls) =
     (case push_pairs cs ls of Inl e \<Rightarrow> Inl e | Inr cs' \<Rightarrow> Inr (c # cs'))"
| "push_pairs (c # cs) (Entry l # ls) =
     (case cell_set_lattice c l of
        Inl e \<Rightarrow> Inl e
      | Inr c' \<Rightarrow> (case push_pairs cs ls of Inl e \<Rightarrow> Inl e | Inr cs' \<Rightarrow> Inr (c' # cs')))"

text \<open>
  The pairing the specification describes: a cell paired with a lattice gets it, a
  cell paired with a \<^verbatim>\<open>Jump\<close> or with nothing is left as it is, and entries beyond
  the cells are ignored.
\<close>

definition pushed :: "cell \<Rightarrow> lattice_entry \<Rightarrow> cell" where
  "pushed c e =
     (case e of
        Entry l \<Rightarrow>
          c\<lparr>cell_lattice := (cell_lattice c)\<lparr>lat_mutated := True, lattice_value := OneLattice l\<rparr>\<rparr>
      | Jump \<Rightarrow> c)"

fun spec_push :: "cell list \<Rightarrow> lattice_entry list \<Rightarrow> cell list" where
  "spec_push [] ls = []"
| "spec_push (c # cs) [] = c # cs"
| "spec_push (c # cs) (e # ls) = pushed c e # spec_push cs ls"

text \<open>
  \<^verbatim>\<open>push_to_cells\<close>. \<open>problem\<close> is \<^verbatim>\<open>self._problem\<close>, given by its cells. The result is
  the input and the cells after the call. \<^verbatim>\<open>if self._lattice\<close> is Python truthiness:
  \<^verbatim>\<open>None\<close> and the empty list are false; a single lattice is true and then cannot be
  iterated.
\<close>

definition push_to_cells ::
  "lattice_input \<Rightarrow> cell list option \<Rightarrow> error + (lattice_input \<times> cell list option)" where
  "push_to_cells self problem =
     (case problem of
        None \<Rightarrow> Inr (self, problem)
      | Some cells \<Rightarrow>
          if in_cell_block self then Inr (self, problem)
          else
            (let self' = self\<lparr>starting_num_cells := Some (length cells)\<rparr> in
             case lattice_value self' of
               NoLattice \<Rightarrow> Inr (self', problem)
             | LatticeList [] \<Rightarrow> Inr (self', problem)
             | OneLattice l \<Rightarrow>
                 (case check_redundant_definitions cells of
                    Some e \<Rightarrow> Inl e
                  | None \<Rightarrow> Inl (TypeError ''Lattice object is not iterable''))
             | LatticeList ls \<Rightarrow>
                 (case check_redundant_definitions cells of
                    Some e \<Rightarrow> Inl e
                  | None \<Rightarrow>
                      (case push_pairs cells ls of
                         Inl e \<Rightarrow> Inl e
                       | Inr cells' \<Rightarrow> Inr (self', Some cells')))))"

text \<open>
  \<^verbatim>\<open>LatticeInput.merge(self, other)\<close> raises at once. The exception carries the other
  input and the message; the message is kept.
\<close>

definition merge :: "lattice_input \<Rightarrow> lattice_input \<Rightarrow> error + lattice_input" where
  "merge self other = Inl (MalformedInputError ''Cannot have two lattice inputs for the problem'')"

text \<open>A data-block \<^verbatim>\<open>LAT\<close> input with the given entries, and a cell with no lattice.\<close>

definition data_lattice_input :: "lattice_entry list \<Rightarrow> lattice_input" where
  "data_lattice_input ls =
     \<lparr>in_cell_block = False, set_in_cell_block = False, lat_mutated = False,
      lattice_value = LatticeList ls, starting_num_cells = None\<rparr>"

definition empty_cell :: cell where
  "empty_cell =
     \<lparr>cell_lattice = \<lparr>in_cell_block = True, set_in_cell_block = False, lat_mutated = False,
        lattice_value = NoLattice, starting_num_cells = None\<rparr>\<rparr>"

section \<open>Material\<close>

text \<open>
  What \<^verbatim>\<open>Material\<close> takes from modules that are not among the sources, as
  parameters: \<^verbatim>\<open>Isotope(isotope_str)\<close>, which returns an isotope or raises
  \<^verbatim>\<open>MalformedInputError\<close> (\<open>None\<close>); \<^verbatim>\<open>fortran_float\<close>, which returns a float or
  raises \<^verbatim>\<open>ValueError\<close> (\<open>None\<close>); \<^verbatim>\<open>Isotope.mcnp_str\<close> and \<^verbatim>\<open>str(isotope)\<close>; the
  format \<^verbatim>\<open>.4g\<close> of a float; the formatters of comments and of a thermal scattering
  law; and Python's \<^verbatim>\<open>hash\<close>.
\<close>

datatype pyobj = OStr string | OInt int | OFloat rat | OTuple "pyobj list"

record ('i, 't) library =
  Isotope :: "string \<Rightarrow> 'i option"
  fortran_float :: "string \<Rightarrow> rat option"
  mcnp_str :: "'i \<Rightarrow> string"
  str_isotope :: "'i \<Rightarrow> string"
  format_4g :: "rat \<Rightarrow> string"
  comment_format :: comment_format
  thermal_format :: "'t \<Rightarrow> mcnp_version \<Rightarrow> string list"
  py_hash :: "pyobj \<Rightarrow> int"

text \<open>The parsed input a material is built from: its lines, its words and its number.\<close>

record data_input =
  di_lines :: "string list"
  di_words :: "string list"
  di_number :: int

text \<open>\<^verbatim>\<open>" ".join(words)\<close>.\<close>

fun join_words :: "string list \<Rightarrow> string" where
  "join_words [] = []"
| "join_words [w] = w"
| "join_words (w # ws) = w @ '' '' @ join_words ws"

text \<open>
  \<^verbatim>\<open>d[k] = v\<close> on a dict in insertion order: an existing key keeps its place, a new
  one goes last.
\<close>

fun dict_set :: "'k \<Rightarrow> 'v \<Rightarrow> ('k \<times> 'v) list \<Rightarrow> ('k \<times> 'v) list" where
  "dict_set k v [] = [(k, v)]"
| "dict_set k v (p # ps) = (if fst p = k then (k, v) # ps else p # dict_set k v ps)"

text \<open>
  The loop of \<^verbatim>\<open>Material.__init__\<close> over \<^verbatim>\<open>words_iter\<close>; \<open>set_atom_frac\<close> is the
  local flag. \<^verbatim>\<open>next(words_iter)\<close> on the exhausted iterator raises
  \<^verbatim>\<open>StopIteration\<close>, which no \<^verbatim>\<open>except\<close> clause of the loop catches. An isotope
  that does not parse ends the loop: the rest of the words is the parameter string.
\<close>

fun parse_components ::
  "('i, 't) library \<Rightarrow> string list \<Rightarrow> bool \<Rightarrow> ('i, 't) material \<Rightarrow> error + ('i, 't) material" where
  "parse_components lib [] set_atom_frac self = Inr self"
| "parse_components lib (isotope_str # ws) set_atom_frac self =
     (case Isotope lib isotope_str of
        None \<Rightarrow>
          Inr (self\<lparr>parameter_string :=
                 Some ((case parameter_string self of Some p \<Rightarrow> p | None \<Rightarrow> [])
                         @ join_words (isotope_str # ws))\<rparr>)
      | Some isotope \<Rightarrow>
          (case ws of
             [] \<Rightarrow> Inl StopIteration
           | fraction_str # rest \<Rightarrow>
               (case fortran_float lib fraction_str of
                  None \<Rightarrow>
                    Inl (MalformedInputError
                           (fraction_str @ '' could not be parsed as a material fraction''))
                | Some fraction \<Rightarrow>
                    if \<not> set_atom_frac then
                      parse_components lib rest True
                        (self\<lparr>material_components :=
                                 dict_set isotope \<bar>fraction\<bar> (material_components self),
                               is_atom_fraction := Some (fraction > 0)\<rparr>)
                    else if (fraction > 0 \<and> is_atom_fraction self = Some False)
                            \<or> (fraction < 0 \<and> is_atom_fraction self = Some True) then
                      Inl (MalformedInputError
                        ''Material definitons cannot use atom and mass fraction at the same time'')
                    else if fraction \<noteq> 0 \<and> is_atom_fraction self = None then
                      Inl (AttributeError ''_is_atom_fraction'')
                    else
                      parse_components lib rest True
                        (self\<lparr>material_components :=
                                 dict_set isotope \<bar>fraction\<bar> (material_components self)\<rparr>))))"

text \<open>
  \<^verbatim>\<open>Material.__init__\<close>. The base initialiser is that of \<^verbatim>\<open>MCNP_Card\<close>;
  \<^verbatim>\<open>words[1:]\<close> drops the first word.
\<close>

definition Material_init ::
  "('i, 't) library \<Rightarrow> data_input option \<Rightarrow> comments_arg \<Rightarrow> error + ('i, 't) material" where
  "Material_init lib input cs =
     (let base = MCNP_Card_init (map_option di_lines input) cs;
          self = \<lparr>input_lines = input_lines base, mutated = mutated base, comments = comments base,
                  material_number = - 1, old_material_number = None, material_components = [],
                  thermal_scattering = None, is_atom_fraction = None, parameter_string = None\<rparr>
      in case input of
           None \<Rightarrow> Inr self
         | Some inp \<Rightarrow>
             parse_components lib (drop 1 (di_words inp)) False
               (self\<lparr>old_material_number := Some (di_number inp),
                      material_number := di_number inp,
                      parameter_string := Some []\<rparr>))"

text \<open>Decimal text of an integer, as \<^verbatim>\<open>str\<close> and the f-strings print it.\<close>

fun str_nat :: "nat \<Rightarrow> string" where
  "str_nat n = (if n < 10 then [''0123456789'' ! n]
                else str_nat (n div 10) @ [''0123456789'' ! (n mod 10)])"

definition str_int :: "int \<Rightarrow> string" where
  "str_int i = (if i < 0 then CHR ''-'' # str_nat (nat (- i)) else str_nat (nat i))"

text \<open>The format specifications \<^verbatim>\<open><8\<close> and \<^verbatim>\<open>>8\<close>: pad on the right, on the left.\<close>

definition ljust :: "nat \<Rightarrow> string \<Rightarrow> string" where
  "ljust n s = s @ replicate (n - length s) CHR '' ''"

definition rjust :: "nat \<Rightarrow> string \<Rightarrow> string" where
  "rjust n s = replicate (n - length s) CHR '' '' @ s"

text \<open>\<^verbatim>\<open>Material.validate\<close>.\<close>

definition validate :: "('i, 't) material \<Rightarrow> error option" where
  "validate self =
     (if length (material_components self) = 0 then
        Some (IllegalState (''Material: '' @ str_int (material_number self)
                              @ '' does not have any components defined.''))
      else None)"

text \<open>
  \<^verbatim>\<open>Material.format_for_mcnp_input\<close>. It validates first. The base method it calls
  is \<^verbatim>\<open>MCNP_Object.format_for_mcnp_input\<close>, whose module is not among the sources; the
  base method of \<^verbatim>\<open>MCNP_Card\<close> stands for it, and its result is kept only on the
  mutated path. The components are taken in the order of their sorted isotopes (the
  list has one pair for an isotope, as the dict has); the first gives the header line,
  the others a line each; \<^verbatim>\<open>sorted_isotopes[0]\<close> of an empty list raises
  \<^verbatim>\<open>IndexError\<close>.
\<close>

definition first_component_line :: "('i, 't) library \<Rightarrow> int \<Rightarrow> 'i \<times> rat \<Rightarrow> string" where
  "first_component_line lib number c =
     ''m'' @ ljust 8 (str_int number) @ '' '' @ rjust 8 (mcnp_str lib (fst c)) @ '' ''
       @ rjust 11 (format_4g lib (snd c))"

definition component_line :: "('i, 't) library \<Rightarrow> 'i \<times> rat \<Rightarrow> string" where
  "component_line lib c = rjust 18 (mcnp_str lib (fst c)) @ '' '' @ rjust 11 (format_4g lib (snd c))"

definition sorted_components :: "('i::linorder, 't) material \<Rightarrow> ('i \<times> rat) list" where
  "sorted_components self = sort_key fst (material_components self)"

definition material_format_for_mcnp_input ::
  "('i::linorder, 't) library \<Rightarrow> ('i, 't) material \<Rightarrow> mcnp_version \<Rightarrow> error + string list" where
  "material_format_for_mcnp_input lib self v =
     (case validate self of
        Some e \<Rightarrow> Inl e
      | None \<Rightarrow>
          (let ret = card_format_for_mcnp_input (comment_format lib) self v;
               law = (case thermal_scattering self of
                        Some t \<Rightarrow> thermal_format lib t v
                      | None \<Rightarrow> [])
           in if mutated self then
                (case sorted_components self of
                   [] \<Rightarrow> Inl (IndexError ''list index out of range'')
                 | first_component # others \<Rightarrow>
                     Inr (ret @ [first_component_line lib (material_number self) first_component]
                            @ map (component_line lib) others @ law))
              else Inr (format_for_mcnp_unmutated (comment_format lib) self v @ law)))"

text \<open>
  \<^verbatim>\<open>Material.__hash__\<close> and \<^verbatim>\<open>Material.__eq__\<close>. \<^verbatim>\<open>temp_hash\<close> starts as the empty
  string and is an integer from the first component on.
\<close>

definition material_hash :: "('i::linorder, 't) library \<Rightarrow> ('i, 't) material \<Rightarrow> int" where
  "material_hash lib self =
     py_hash lib (OTuple
       [fold (\<lambda>c temp_hash.
                OInt (py_hash lib (OTuple [temp_hash, OStr (str_isotope lib (fst c)), OFloat (snd c)])))
          (sorted_components self) (OStr []),
        OInt (material_number self)])"

definition material_eq ::
  "('i::linorder, 't) library \<Rightarrow> ('i, 't) material \<Rightarrow> ('i, 't) material \<Rightarrow> bool" where
  "material_eq lib self other = (material_hash lib self = material_hash lib other)"

text \<open>
  What \<^verbatim>\<open>__hash__\<close> hands to \<^verbatim>\<open>hash\<close> on its way: \<^verbatim>\<open>temp_hash\<close> after the loop over
  the components \<open>cs\<close>; the tuple hashed for each component, which holds \<^verbatim>\<open>temp_hash\<close>
  as it is after the components before it; and, last, the tuple of the final
  \<^verbatim>\<open>temp_hash\<close> and the number.
\<close>

definition temp_hash :: "('i, 't) library \<Rightarrow> ('i \<times> rat) list \<Rightarrow> pyobj" where
  "temp_hash lib cs =
     fold (\<lambda>c temp_hash.
             OInt (py_hash lib (OTuple [temp_hash, OStr (str_isotope lib (fst c)), OFloat (snd c)])))
       cs (OStr [])"

definition component_tuples :: "('i, 't) library \<Rightarrow> ('i \<times> rat) list \<Rightarrow> pyobj list" where
  "component_tuples lib cs =
     map (\<lambda>k. OTuple [temp_hash lib (take k cs), OStr (str_isotope lib (fst (cs ! k))),
                       OFloat (snd (cs ! k))]) [0..<length cs]"

definition hashed_tuples :: "('i::linorder, 't) library \<Rightarrow> ('i, 't) material \<Rightarrow> pyobj list" where
  "hashed_tuples lib self =
     component_tuples lib (sorted_components self)
       @ [OTuple [temp_hash lib (sorted_components self), OInt (material_number self)]]"







text \<open>
  A library for the concrete examples: isotopes are their numbers, and a few words
  are read as isotopes and as fractions.
\<close>

fun example_hash :: "pyobj \<Rightarrow> int" where
  "example_hash (OStr s) = int (length s)"
| "example_hash (OInt n) = n"
| "example_hash (OFloat r) = \<lfloor>r\<rfloor>"
| "example_hash (OTuple xs) = sum_list (map example_hash xs)"

definition example_library :: "(nat, unit) library" where
  "example_library =
     \<lparr>Isotope = map_of [(''1001'', 1001), (''8016'', 8016), (''92235'', 92235)],
      fortran_float = map_of [(''0'', 0), (''1'', 1), (''2'', 2), (''-1'', - 1), (''-2'', - 2)],
      mcnp_str = (\<lambda>i. str_nat i),
      str_isotope = (\<lambda>i. str_nat i),
      format_4g = (\<lambda>r. str_int \<lfloor>r\<rfloor>),
      comment_format = plain_comment,
      thermal_format = (\<lambda>t v. []),
      py_hash = example_hash\<rparr>"

text \<open>
  A material for the concrete examples: \<^verbatim>\<open>m1 1001 2 8016 1\<close>, isotopes given by their
  numbers, read from its input and not mutated.
\<close>

definition water :: "(nat, unit) material" where
  "water =
     \<lparr>input_lines = [''m1 1001 2 8016 1''], mutated = False, comments = [],
      material_number = 1, old_material_number = Some 1,
      material_components = [(1001, 2), (8016, 1)], thermal_scattering = None,
      is_atom_fraction = Some True, parameter_string = Some []\<rparr>"


text \<open>
  The same components written in the other order, with another convention flag,
  parameter string, old number and a thermal scattering law.
\<close>

definition heavy_water :: "(nat, unit) material" where
  "heavy_water =
     water\<lparr>material_components := [(8016, 1), (1001, 2)], is_atom_fraction := Some False,
           parameter_string := Some ''gas=1'', old_material_number := Some 7,
           thermal_scattering := Some ()\<rparr>"


section \<open>Line wrapping\<close>

text \<open>
  \<^verbatim>\<open>wrap_string_for_mcnp\<close> builds a \<^verbatim>\<open>textwrap.TextWrapper\<close> and calls its \<^verbatim>\<open>wrap\<close>.
  The wrapper belongs to Python's standard library; it is modelled here from
  \<^verbatim>\<open>textwrap.py\<close> of CPython 3.11, with the options the card leaves at their
  defaults (\<^verbatim>\<open>expand_tabs\<close>, \<^verbatim>\<open>replace_whitespace\<close>, \<^verbatim>\<open>drop_whitespace\<close>,
  \<^verbatim>\<open>break_long_words\<close>, \<^verbatim>\<open>break_on_hyphens\<close>, tab size 8, no \<^verbatim>\<open>max_lines\<close>). The
  model is of ASCII text: a \<^typ>\<open>char\<close> below 128 is the ASCII character of that code,
  and the character classes below are Python's on these characters only (beyond them
  \<^verbatim>\<open>str.strip\<close> removes more and \<^verbatim>\<open>\w\<close> matches more). The properties of the wrapper
  are stated for strings of ASCII characters.
\<close>

subsection \<open>Character classes\<close>


definition py_whitespace :: "char \<Rightarrow> bool" where
  "py_whitespace c = (c \<in> set [CHR 0x09, CHR 0x0A, CHR 0x0B, CHR 0x0C, CHR 0x0D, CHR '' ''])"

definition str_isspace :: "char \<Rightarrow> bool" where
  "str_isspace c = (py_whitespace c \<or> c \<in> set [CHR 0x1C, CHR 0x1D, CHR 0x1E, CHR 0x1F])"

definition letter :: "char \<Rightarrow> bool" where
  "letter c = (c \<in> set ''abcdefghijklmnopqrstuvwxyzABCDEFGHIJKLMNOPQRSTUVWXYZ_'')"

definition word_char :: "char \<Rightarrow> bool" where
  "word_char c = (letter c \<or> c \<in> set ''0123456789'')"

definition word_punct :: "char \<Rightarrow> bool" where
  "word_punct c =
     (word_char c
      \<or> c \<in> set [CHR ''!'', CHR 0x22, CHR 0x27, CHR ''&'', CHR ''.'', CHR '','', CHR ''?''])"

subsection \<open>Munging whitespace\<close>

text \<open>
  \<^verbatim>\<open>_munge_whitespace\<close>: \<^verbatim>\<open>str.expandtabs(8)\<close>, which counts the column from the last
  newline or carriage return, and then every whitespace character becomes a space.
\<close>

fun expandtabs :: "nat \<Rightarrow> string \<Rightarrow> string" where
  "expandtabs col [] = []"
| "expandtabs col (c # cs) =
     (if c = CHR 0x09 then
        replicate (8 - col mod 8) CHR '' '' @ expandtabs (col + (8 - col mod 8)) cs
      else c # expandtabs (if c = CHR 0x0A \<or> c = CHR 0x0D then 0 else col + 1) cs)"

definition munge_whitespace :: "string \<Rightarrow> string" where
  "munge_whitespace text =
     map (\<lambda>c. if py_whitespace c then CHR '' '' else c) (expandtabs 0 text)"

subsection \<open>Splitting into chunks\<close>

text \<open>
  \<^verbatim>\<open>_split\<close> is \<^verbatim>\<open>wordsep_re.split(text)\<close> without the empty strings. At every position
  the expression matches, so the chunks are the successive matches: a run of whitespace;
  or a run of two or more hyphens between a \<^verbatim>\<open>word_punct\<close> character and a \<^verbatim>\<open>\w\<close>
  character; or the shortest non-empty run of other characters that ends after a
  hyphen between letters, before whitespace or the end, or before such a run of hyphens.
  In the functions below \<open>l\<close> is the text before the position, last character first,
  and \<open>r\<close> the text from the position on.

  The look-behind of a hyphen that may end a chunk, \<^verbatim>\<open>(?<=lt{2}-)\<close> or \<^verbatim>\<open>(?<=lt-lt-)\<close>,
  and its look-ahead \<^verbatim>\<open>(?=lt-?lt)\<close>:
\<close>

fun hyphen_behind :: "string \<Rightarrow> bool" where
  "hyphen_behind (a # b # c # l) =
     ((letter a \<and> letter b) \<or> (letter a \<and> b = CHR ''-'' \<and> letter c))"
| "hyphen_behind [a, b] = (letter a \<and> letter b)"
| "hyphen_behind l = False"

fun hyphen_ahead :: "string \<Rightarrow> bool" where
  "hyphen_ahead (x # y # z # r) = (letter x \<and> (letter y \<or> (y = CHR ''-'' \<and> letter z)))"
| "hyphen_ahead [x, y] = (letter x \<and> letter y)"
| "hyphen_ahead r = False"

text \<open>\<^verbatim>\<open>-{2,}\w\<close> at the position, and \<^verbatim>\<open>(?<=wp)\<close> before it.\<close>

definition dashes_then_word :: "string \<Rightarrow> bool" where
  "dashes_then_word r =
     (2 \<le> length (takeWhile (\<lambda>c. c = CHR ''-'') r)
      \<and> (case dropWhile (\<lambda>c. c = CHR ''-'') r of [] \<Rightarrow> False | c # _ \<Rightarrow> word_char c))"

definition punct_behind :: "string \<Rightarrow> bool" where
  "punct_behind l = (case l of [] \<Rightarrow> False | a # _ \<Rightarrow> word_punct a)"

text \<open>
  How many more characters the lazy \<^verbatim>\<open>nws+?\<close> takes once it has taken one: the three
  ways a word ends are tried in the order of the expression.
\<close>

fun word_len :: "string \<Rightarrow> string \<Rightarrow> nat" where
  "word_len l [] = 0"
| "word_len l (c # r) =
     (if c = CHR ''-'' \<and> hyphen_behind l \<and> hyphen_ahead r then 1
      else if py_whitespace c then 0
      else if punct_behind l \<and> dashes_then_word (c # r) then 0
      else 1 + word_len (c # l) r)"

text \<open>The length, after its first character \<open>c\<close>, of the chunk that starts at \<open>c\<close>.\<close>

definition chunk_len :: "string \<Rightarrow> char \<Rightarrow> string \<Rightarrow> nat" where
  "chunk_len l c r =
     (if py_whitespace c then length (takeWhile py_whitespace r)
      else if punct_behind l \<and> dashes_then_word (c # r) then
        length (takeWhile (\<lambda>c. c = CHR ''-'') r)
      else word_len (c # l) r)"

fun split :: "string \<Rightarrow> string \<Rightarrow> string list" where
  "split l [] = []"
| "split l (c # r) =
     (c # take (chunk_len l c r) r)
       # split (rev (take (chunk_len l c r) r) @ c # l) (drop (chunk_len l c r) r)"

definition split_chunks :: "string \<Rightarrow> string list" where
  "split_chunks text = split [] (munge_whitespace text)"

subsection \<open>Wrapping the chunks\<close>

text \<open>
  The inner loop of \<^verbatim>\<open>_wrap_chunks\<close>: chunks go on the current line while they fit.
  The result is the line and the chunks left. (Python reverses the chunks and pops
  from the end; here the list is read from the front.)
\<close>

fun fill :: "int \<Rightarrow> nat \<Rightarrow> string list \<Rightarrow> string list \<times> string list" where
  "fill width cur_len [] = ([], [])"
| "fill width cur_len (chunk # chunks) =
     (if int cur_len + int (length chunk) \<le> width then
        (case fill width (cur_len + length chunk) chunks of
           (cur_line, rest) \<Rightarrow> (chunk # cur_line, rest))
      else ([], chunk # chunks))"

text \<open>\<^verbatim>\<open>chunk.rfind(c)\<close>: the last index of \<open>c\<close>, if any.\<close>

fun rfind :: "char \<Rightarrow> string \<Rightarrow> nat option" where
  "rfind c [] = None"
| "rfind c (x # xs) =
     (case rfind c xs of Some i \<Rightarrow> Some (Suc i) | None \<Rightarrow> if x = c then Some 0 else None)"

text \<open>
  \<^verbatim>\<open>_handle_long_word\<close> with \<^verbatim>\<open>break_long_words\<close>: the next chunk is cut at
  \<open>space_left\<close>, or after the last hyphen before that which has a character other than
  a hyphen before it; the first part goes on the line, the rest stays.
\<close>

definition long_word_end :: "string \<Rightarrow> nat \<Rightarrow> nat" where
  "long_word_end chunk space_left =
     (if length chunk > space_left then
        (case rfind CHR ''-'' (take space_left chunk) of
           Some hyphen \<Rightarrow>
             if hyphen > 0 \<and> list_ex (\<lambda>c. c \<noteq> CHR ''-'') (take hyphen chunk) then hyphen + 1
             else space_left
         | None \<Rightarrow> space_left)
      else space_left)"

definition handle_long_word ::
  "string list \<Rightarrow> string list \<Rightarrow> nat \<Rightarrow> int \<Rightarrow> string list \<times> string list" where
  "handle_long_word chunks cur_line cur_len width =
     (let space_left = (if width < 1 then 1 else nat (width - int cur_len));
          e = long_word_end (hd chunks) space_left
      in (cur_line @ [take e (hd chunks)], drop e (hd chunks) # tl chunks))"

text \<open>\<^verbatim>\<open>chunk.strip() == ''\<close>.\<close>

definition blank :: "string \<Rightarrow> bool" where
  "blank s = list_all str_isspace s"

text \<open>The three arguments the card gives to \<^verbatim>\<open>TextWrapper\<close>.\<close>

record text_wrapper =
  width :: int
  initial_indent :: string
  subsequent_indent :: string

text \<open>
  One round of the outer loop of \<^verbatim>\<open>_wrap_chunks\<close>, in its four steps: a blank chunk
  that would start a line is dropped, unless no line has been made yet; the line is
  filled, and a next chunk that is longer than the whole width is broken; a blank chunk
  that would end the line is dropped; and the line, if anything is on it, is added
  after its indent.
\<close>

definition drop_leading :: "string list \<Rightarrow> string list \<Rightarrow> string list" where
  "drop_leading lines chunks = (if blank (hd chunks) \<and> lines \<noteq> [] then tl chunks else chunks)"

definition build_line :: "int \<Rightarrow> string list \<Rightarrow> string list \<times> string list" where
  "build_line w chunks =
     (let cur_line = fst (fill w 0 chunks);
          chunks = snd (fill w 0 chunks)
      in if chunks \<noteq> [] \<and> int (length (hd chunks)) > w
         then handle_long_word chunks cur_line (length (concat cur_line)) w
         else (cur_line, chunks))"

definition drop_trailing :: "string list \<Rightarrow> string list" where
  "drop_trailing cur_line =
     (if cur_line \<noteq> [] \<and> blank (last cur_line) then butlast cur_line else cur_line)"

definition wrap_line ::
  "text_wrapper \<Rightarrow> string list \<times> string list \<Rightarrow> string list \<times> string list" where
  "wrap_line tw st =
     (let chunks = fst st; lines = snd st;
          indent = (if lines \<noteq> [] then subsequent_indent tw else initial_indent tw);
          w = width tw - int (length indent);
          built = build_line w (drop_leading lines chunks);
          cur_line = drop_trailing (fst built)
      in (snd built, if cur_line \<noteq> [] then lines @ [indent @ concat cur_line] else lines))"

text \<open>
  The outer loop, \<^verbatim>\<open>while chunks\<close>, on the chunks left and the lines made. It need not
  end (an indent wider than the width can repeat a state), so not returning is
  \<open>None\<close>.
\<close>

partial_function (option) wrap_chunks ::
  "text_wrapper \<Rightarrow> string list \<times> string list \<Rightarrow> string list option" where
  "wrap_chunks tw st = (if fst st = [] then Some (snd st) else wrap_chunks tw (wrap_line tw st))"

declare wrap_chunks.simps [code]

text \<open>
  \<^verbatim>\<open>TextWrapper.wrap\<close>: the text is split, and \<^verbatim>\<open>_wrap_chunks\<close> first refuses a width
  that is not positive.
\<close>

definition wrap :: "text_wrapper \<Rightarrow> string \<Rightarrow> (error + string list) option" where
  "wrap tw text =
     (let chunks = split_chunks text
      in if width tw \<le> 0 then
           Some (Inl (ValueError (''invalid width '' @ str_int (width tw) @ '' (must be > 0)'')))
         else map_option Inr (wrap_chunks tw (chunks, [])))"

text \<open>
  \<^verbatim>\<open>MCNP_Card.wrap_string_for_mcnp\<close> and \<^verbatim>\<open>wrap_words_for_mcnp\<close>. The version is a
  tuple; \<^verbatim>\<open>mcnp_version[:2] == (6, 2)\<close> compares its first two components. Any other
  version leaves both lengths 0.
\<close>

definition wrap_string_for_mcnp ::
  "string \<Rightarrow> mcnp_version \<Rightarrow> bool \<Rightarrow> (error + string list) option" where
  "wrap_string_for_mcnp string v is_first_line =
     (let line_length = (if take 2 v = [6, 2] then 128 else 0);
          indent_length = (if take 2 v = [6, 2] then 5 else 0);
          initial_indent = (if is_first_line then 0 else indent_length)
      in wrap \<lparr>width = line_length, initial_indent = replicate initial_indent CHR '' '',
               subsequent_indent = replicate indent_length CHR '' ''\<rparr> string)"

definition wrap_words_for_mcnp ::
  "string list \<Rightarrow> mcnp_version \<Rightarrow> bool \<Rightarrow> (error + string list) option" where
  "wrap_words_for_mcnp words v is_first_line =
     wrap_string_for_mcnp (join_words words) v is_first_line"

subsection \<open>Tokens, and the strings no chunk boundary can fall inside\<close>





subsection \<open>Invariants of the wrapping loop\<close>





text \<open>The measure that every round of the loop decreases.\<close>

definition weight :: "string list \<Rightarrow> nat" where
  "weight chunks = sum_list (map length chunks) + length chunks"

text \<open>Munging from a given column.\<close>

definition munge_at :: "nat \<Rightarrow> string \<Rightarrow> string" where
  "munge_at col text = map (\<lambda>c. if py_whitespace c then CHR '' '' else c) (expandtabs col text)"










section \<open>Replaying an unmutated card\<close>

lemma fill_comments_dict_lookup:
  "fill_comments_dict cs d i =
     (case last_cutting_at cs i of None \<Rightarrow> d i | Some c \<Rightarrow> Some c)"
proof (induction cs arbitrary: d)
  case Nil
  show ?case by (simp add: last_cutting_at_def cutting_at_def)
next
  case (Cons c cs)
  show ?case
    by (simp add: Cons.IH last_cutting_at_def cutting_at_def split: list.splits)
qed

lemma fill_comments_dict_empty:
  "fill_comments_dict cs Map.empty i = last_cutting_at cs i"
  by (simp add: fill_comments_dict_lookup split: option.splits)

lemma replay_lines_eq:
  "replay_lines cfmt v d (int k) ls ret =
     ret @ concat (map (\<lambda>(i, line). (case d (int i) of None \<Rightarrow> [] | Some c \<Rightarrow> cfmt c v) @ [line])
                     (enumerate k ls))"
proof (induction ls arbitrary: k ret)
  case Nil
  show ?case by simp
next
  case (Cons l ls)
  have e: "int k + 1 = int (Suc k)" by simp
  show ?case
    unfolding replay_lines.simps e Cons.IH by (simp split: option.splits)
qed

lemma format_for_mcnp_unmutated_eq:
  "format_for_mcnp_unmutated cfmt self v = code_replay cfmt v (comments self) (input_lines self)"
proof (cases "comments self")
  case Nil
  have "replay_lines cfmt v Map.empty (int 0) (input_lines self) [] =
        code_replay cfmt v [] (input_lines self)"
    unfolding replay_lines_eq
    by (simp add: code_replay_def leading_comment_def last_cutting_at_def cutting_at_def)
  with Nil show ?thesis by (simp add: format_for_mcnp_unmutated_def)
next
  case (Cons c cs)
  have "replay_lines cfmt v (fill_comments_dict (c # cs) Map.empty) (int 0) (input_lines self)
          (cfmt c v) = code_replay cfmt v (c # cs) (input_lines self)"
    unfolding replay_lines_eq fill_comments_dict_empty
    by (simp add: code_replay_def leading_comment_def)
  with Cons show ?thesis by (simp add: format_for_mcnp_unmutated_def)
qed

lemma cutting_at_distinct:
  "distinct (map card_line (filter is_cutting_comment cs)) \<Longrightarrow> length (cutting_at cs i) \<le> 1"
proof (induction cs)
  case Nil
  show ?case by (simp add: cutting_at_def)
next
  case (Cons c cs)
  show ?case
  proof (cases "is_cutting_comment c \<and> card_line c = i")
    case True
    with Cons.prems have "\<forall>d \<in> set cs. is_cutting_comment d \<longrightarrow> card_line d \<noteq> i"
      by (force simp: image_iff)
    then have "cutting_at cs i = []" by (auto simp: cutting_at_def filter_empty_conv)
    with True show ?thesis by (simp add: cutting_at_def)
  next
    case False
    from Cons.prems have "distinct (map card_line (filter is_cutting_comment cs))"
      by (simp split: if_splits)
    with Cons.IH False show ?thesis by (auto simp: cutting_at_def)
  qed
qed

lemma last_cutting_at_distinct:
  assumes "distinct (map card_line (filter is_cutting_comment cs))"
  shows "(case last_cutting_at cs i of None \<Rightarrow> [] | Some c \<Rightarrow> cfmt c v)
           = concat (map (\<lambda>c. cfmt c v) (cutting_at cs i))"
proof -
  from cutting_at_distinct [OF assms, of i]
  consider "cutting_at cs i = []" | c where "cutting_at cs i = [c]"
    by (cases "cutting_at cs i"; cases "tl (cutting_at cs i)") auto
  then show ?thesis by cases (auto simp: last_cutting_at_def)
qed

lemma code_replay_distinct:
  assumes "distinct (map card_line (filter is_cutting_comment cs))"
  shows "code_replay cfmt v cs ls = leading_comment cfmt v cs @ spec_replay cfmt v cs ls"
  unfolding code_replay_def spec_replay_def
  by (simp add: last_cutting_at_distinct [OF assms] case_prod_unfold)

text \<open>
  C1, as amended. A card built from an input card is not mutated and keeps the lines
  of the input. When its first comment, if it has one, is not a cutting comment and
  no two cutting comments have the same \<^verbatim>\<open>card_line\<close>, replaying it gives, for every
  version: the formatted first comment, and then the stored input lines in order, with
  every cutting comment put back just before the line whose index is its
  \<^verbatim>\<open>card_line\<close>. With no comment the result is the input lines themselves, and the
  input lines are always a subsequence of the result.
\<close>

theorem unmutated_replay:
  "mutated (MCNP_Card_init (Some ls) cs) = False
   \<and> input_lines (MCNP_Card_init (Some ls) cs) = ls
   \<and> ((comments self = [] \<or> \<not> is_cutting_comment (hd (comments self)))
        \<and> distinct (map card_line (filter is_cutting_comment (comments self))) \<longrightarrow>
      format_for_mcnp_unmutated cfmt self v
        = leading_comment cfmt v (comments self)
            @ spec_replay cfmt v (comments self) (input_lines self))
   \<and> format_for_mcnp_unmutated cfmt (MCNP_Card_init (Some ls) NoComments) v = ls
   \<and> subseq (input_lines self) (format_for_mcnp_unmutated cfmt self v)"
proof -
  have enum: "concat (map (\<lambda>(i, line). [line]) (enumerate k xs)) = xs" for k :: nat and xs :: "string list"
    by (induction xs arbitrary: k) auto
  have none: "code_replay cfmt v [] xs = xs" for xs
    by (simp add: code_replay_def leading_comment_def last_cutting_at_def cutting_at_def enum)
  have sub: "subseq xs (concat (map (\<lambda>(i, line). f i @ [line]) (enumerate k xs)))"
    for k :: nat and xs :: "string list" and f
  proof (induction xs arbitrary: k)
    case Nil
    show ?case by simp
  next
    case (Cons x xs)
    have "subseq ([] @ x # xs)
            (f k @ x # concat (map (\<lambda>(i, line). f i @ [line]) (enumerate (Suc k) xs)))"
      by (rule list_emb_append2) (simp add: Cons.IH)
    then show ?case by simp
  qed
  have "subseq (input_lines self) (code_replay cfmt v (comments self) (input_lines self))"
    unfolding code_replay_def by (rule list_emb_append2) (rule sub)
  then show ?thesis
    by (simp add: format_for_mcnp_unmutated_eq none MCNP_Card_init_def code_replay_distinct)
qed

theorem unmutated_replay_witness:
  "mutated commented_card = False
   \<and> \<not> is_cutting_comment (hd (comments commented_card))
   \<and> distinct (map card_line (filter is_cutting_comment (comments commented_card)))
   \<and> format_for_mcnp_unmutated plain_comment commented_card [6, 2, 0]
       = [''c fuel'', ''m1 1001.80c 0.5'', ''c oxygen'', ''     8016.80c 0.5'']
   \<and> format_for_mcnp_unmutated plain_comment
         (MCNP_Card_init (Some [''m1 1001.80c 0.5'', ''     8016.80c 0.5'']) NoComments) [5, 1, 60]
       = [''m1 1001.80c 0.5'', ''     8016.80c 0.5'']"
  using unmutated_replay [where self = commented_card and cfmt = plain_comment and v = "[6, 2, 0]"
      and ls = "[''m1 1001.80c 0.5'', ''     8016.80c 0.5'']"
      and cs = "CommentList (comments commented_card)"]
    unmutated_replay [where self = commented_card and cfmt = plain_comment and v = "[5, 1, 60]"
      and ls = "[''m1 1001.80c 0.5'', ''     8016.80c 0.5'']" and cs = NoComments]
  by (simp add: commented_card_def MCNP_Card_init_def leading_comment_def spec_replay_def
      cutting_at_def plain_comment_def)

text \<open>
  C1 as stated fails: a card with one leading, non-cutting comment replays the comment
  before its line, so the result is not the input lines with only the cutting comments
  put back.
\<close>

theorem unmutated_replay_counterexample:
  "format_for_mcnp_unmutated plain_comment
     (MCNP_Card_init (Some [''m1 1001.80c 1.0''])
        (SingleComment \<lparr>is_cutting_comment = False, card_line = 0, comment_text = [''c fuel'']\<rparr>))
     [6, 2, 0]
   \<noteq> spec_replay plain_comment [6, 2, 0]
       [\<lparr>is_cutting_comment = False, card_line = 0, comment_text = [''c fuel'']\<rparr>]
       [''m1 1001.80c 1.0'']"
  by (simp add: format_for_mcnp_unmutated_def MCNP_Card_init_def spec_replay_def cutting_at_def
      plain_comment_def)

section \<open>Cloning a numbered object\<close>

lemma length_filter_step:
  "n \<in> set held \<Longrightarrow> 0 < step \<Longrightarrow>
     length (filter (\<lambda>m. n + step \<le> m) held) < length (filter (\<lambda>m. (n::int) \<le> m) held)"
proof (induction held)
  case Nil
  then show ?case by simp
next
  case (Cons h held)
  have le: "length (filter (\<lambda>m. n + step \<le> m) held) \<le> length (filter (\<lambda>m. n \<le> m) held)"
    using Cons.prems(2) by (induction held) auto
  show ?case
  proof (cases "h = n")
    case True
    with le Cons.prems(2) show ?thesis by simp
  next
    case False
    with Cons have "n \<in> set held" by simp
    with Cons.IH Cons.prems(2) show ?thesis by auto
  qed
qed

lemma request_number_returns:
  "0 < step \<Longrightarrow> \<exists>k. request_number held n step = Some k \<and> k \<notin> set held \<and> n \<le> k"
proof (induction "length (filter (\<lambda>m. n \<le> m) held)" arbitrary: n rule: less_induct)
  case less
  show ?case
  proof (cases "n \<in> set held")
    case False
    then show ?thesis by (subst request_number.simps) simp
  next
    case True
    from length_filter_step [OF True less.prems]
    have "\<exists>k. request_number held (n + step) step = Some k \<and> k \<notin> set held \<and> n + step \<le> k"
      using less.hyps less.prems by blast
    with True less.prems show ?thesis by (subst request_number.simps) auto
  qed
qed

lemma clone_scan_free:
  "snd (assign_number p ret n) = None \<Longrightarrow>
     clone_scan p ret n = Inr (fst (assign_number p ret n))"
  by (subst clone_scan.simps) (simp del: clone_scan.simps)

lemma clone_scan_conflict:
  "assign_number p ret n = (ret, Some NumberConflictError) \<Longrightarrow>
     clone_scan p ret n = clone_scan p ret (n + 1)"
  by (subst clone_scan.simps) (simp del: clone_scan.simps)

lemma held_numbers_unmoved [simp]:
  "held_numbers p (ret\<lparr>mutated := b\<rparr>) = held_numbers p ret"
  by (simp add: held_numbers_def)

text \<open>
  The loop, from a positive number on: it commits the first number, counting by 1,
  that the problem's materials do not hold when the loop starts.
\<close>

lemma clone_scan_first_free:
  "0 < n \<Longrightarrow>
     \<exists>k. clone_scan (Some p) ret n = Inr (ret\<lparr>mutated := True, material_number := k\<rparr>)
       \<and> k \<notin> set (held_numbers p ret) \<and> n \<le> k
       \<and> (\<forall>j. n \<le> j \<and> j < k \<longrightarrow> j \<in> set (held_numbers p ret))"
proof (induction "Some p" ret n rule: clone_scan.induct)
  case (1 ret n)
  show ?case
  proof (cases "n \<in> set (held_numbers p ret)")
    case False
    with "1.prems" have "assign_number (Some p) ret n
        = (ret\<lparr>mutated := True, material_number := n\<rparr>, None)"
      by (simp add: assign_number_def number_setter_def check_number_def)
    with False clone_scan_free [of "Some p" ret n] show ?thesis
      by (intro exI [of _ n]) (auto simp del: clone_scan.simps)
  next
    case True
    with "1.prems" have conflict:
      "assign_number (Some p) ret n = (ret, Some NumberConflictError)"
      by (simp add: assign_number_def number_setter_def check_number_def)
    then have "\<exists>k. clone_scan (Some p) ret (n + 1)
          = Inr (ret\<lparr>mutated := True, material_number := k\<rparr>)
       \<and> k \<notin> set (held_numbers p ret) \<and> n + 1 \<le> k
       \<and> (\<forall>j. n + 1 \<le> j \<and> j < k \<longrightarrow> j \<in> set (held_numbers p ret))"
      using "1.hyps" "1.prems" by (simp del: clone_scan.simps)
    then obtain k where k: "clone_scan (Some p) ret (n + 1)
          = Inr (ret\<lparr>mutated := True, material_number := k\<rparr>)"
      "k \<notin> set (held_numbers p ret)" "n + 1 \<le> k"
      "\<forall>j. n + 1 \<le> j \<and> j < k \<longrightarrow> j \<in> set (held_numbers p ret)" by blast
    have "clone_scan (Some p) ret n = clone_scan (Some p) ret (n + 1)"
      using conflict by (rule clone_scan_conflict)
    moreover have "\<forall>j. n \<le> j \<and> j < k \<longrightarrow> j \<in> set (held_numbers p ret)"
    proof (intro allI impI)
      fix j assume "n \<le> j \<and> j < k"
      with True k(4) show "j \<in> set (held_numbers p ret)" by (cases "j = n") auto
    qed
    ultimately show ?thesis using k by (intro exI [of _ k]) (simp del: clone_scan.simps)
  qed
qed

text \<open>
  What \<^verbatim>\<open>clone\<close> returns, for a positive start and a positive step.
  \<^verbatim>\<open>request_number\<close> returns a number \<open>k0\<close>, which the clone gets; then the loop gives
  the clone the first number from the start on, counting by 1, that is not held once
  the clone has \<open>k0\<close>. The step has no part in the loop, and the number the original
  holds is free again when the clone stands in its place.
\<close>

lemma clone_counts_by_one:
  assumes "0 < start" "0 < step"
  shows "\<exists>k0 k. request_number (held_numbers p m) start step = Some k0
       \<and> clone (Some p) m start step = Some (Inr (m\<lparr>mutated := True, material_number := k\<rparr>))
       \<and> k \<notin> set (held_numbers p (m\<lparr>material_number := k0\<rparr>)) \<and> start \<le> k
       \<and> (\<forall>j. start \<le> j \<and> j < k \<longrightarrow> j \<in> set (held_numbers p (m\<lparr>material_number := k0\<rparr>)))"
proof -
  from request_number_returns [OF assms(2), of "held_numbers p m" start] obtain k0 where
    k0: "request_number (held_numbers p m) start step = Some k0"
      "k0 \<notin> set (held_numbers p m)" "start \<le> k0" by blast
  let ?ret = "m\<lparr>mutated := True, material_number := k0\<rparr>"
  from k0 assms(1) have set0: "assign_number (Some p) m k0 = (?ret, None)"
    by (simp add: assign_number_def number_setter_def check_number_def)
  have held: "held_numbers p ?ret = held_numbers p (m\<lparr>material_number := k0\<rparr>)"
    by (simp add: held_numbers_def)
  from clone_scan_first_free [OF assms(1), of p ?ret]
  obtain k where k: "clone_scan (Some p) ?ret start
        = Inr (m\<lparr>mutated := True, material_number := k\<rparr>)"
    "k \<notin> set (held_numbers p ?ret)" "start \<le> k"
    "\<forall>j. start \<le> j \<and> j < k \<longrightarrow> j \<in> set (held_numbers p ?ret)"
    by (auto simp del: clone_scan.simps)
  have "clone (Some p) m start step = Some (Inr (m\<lparr>mutated := True, material_number := k\<rparr>))"
    using k0(1) set0 k(1) by (simp add: clone_def del: clone_scan.simps)
  with k0(1) k(2,3,4) show ?thesis unfolding held by blast
qed

text \<open>
  For a material that is linked to a problem without being one of its materials, and
  with step 1, the loop of \<^verbatim>\<open>clone\<close> is the scan of the specification: the numbers
  \<open>{1, 2, 3}\<close>, start 1, step 1 give the number 4.
\<close>

lemma clone_123_step_1:
  "clone (Some \<lparr>holds_self = False, other_numbers = [1, 2, 3]\<rparr>) m 1 1
     = Some (Inr (m\<lparr>mutated := True, material_number := 4\<rparr>))
   \<and> spec_clone_number [1, 2, 3] 1 1 = Some 4"
  by (simp add: clone_def assign_number_def held_numbers_def request_number.simps
      number_setter_def check_number_def spec_clone_number_def upt_rec)

text \<open>
  C2 fails on the code. Take a problem whose materials hold the numbers \<open>{1, 2, 3}\<close>
  and clone the material numbered 1, with start 1 and step 1: \<^verbatim>\<open>request_number\<close> gives
  4 and the clone is set to 4, so in the copied problem the number 1 is free; then the
  loop runs all the same, tries 1 and commits it. The clone has the number of the
  original, where the scan of the specification gives 4. With step 2 it is the same,
  where the scan gives 5. And the loop counts by 1 whatever \<^verbatim>\<open>step\<close> is: for a material
  linked to the problem that is not one of its three materials, start 1 and step 2
  give 4, which is not in the sequence \<open>1, 3, 5, \<dots>\<close>.
\<close>

theorem clone_ignores_step:
  "clone (Some \<lparr>holds_self = True, other_numbers = [2, 3]\<rparr>) (m\<lparr>material_number := 1\<rparr>) 1 1
     = Some (Inr (m\<lparr>mutated := True, material_number := 1\<rparr>))
   \<and> held_numbers \<lparr>holds_self = True, other_numbers = [2, 3]\<rparr> (m\<lparr>material_number := 1\<rparr>)
     = [1, 2, 3]
   \<and> spec_clone_number [1, 2, 3] 1 1 = Some 4
   \<and> clone (Some \<lparr>holds_self = True, other_numbers = [2, 3]\<rparr>) (m\<lparr>material_number := 1\<rparr>) 1 2
     = Some (Inr (m\<lparr>mutated := True, material_number := 1\<rparr>))
   \<and> clone (Some \<lparr>holds_self = False, other_numbers = [1, 2, 3]\<rparr>) m 1 2
     = Some (Inr (m\<lparr>mutated := True, material_number := 4\<rparr>))
   \<and> request_number [1, 2, 3] 1 2 = Some 5
   \<and> spec_clone_number [1, 2, 3] 1 2 = Some 5"
  by (simp add: clone_def assign_number_def held_numbers_def request_number.simps
      number_setter_def check_number_def spec_clone_number_def upt_rec)

section \<open>The LAT data input\<close>

text \<open>
  C4, as amended. Merging a second \<^verbatim>\<open>LAT\<close> data input into a first always fails, and
  the exception is \<^verbatim>\<open>MalformedInputError\<close> with the message
  \<^verbatim>\<open>Cannot have two lattice inputs for the problem\<close>.
\<close>

theorem merge_fails:
  "merge self other = Inl (MalformedInputError ''Cannot have two lattice inputs for the problem'')
   \<and> isl (merge self other)"
  by (simp add: merge_def)

text \<open>C4 as stated fails: the exception is not \<^verbatim>\<open>RedundantDefinitionError\<close>.\<close>

theorem merge_counterexample:
  "merge (data_lattice_input [Entry HEXAHEDRA]) (data_lattice_input [Entry HEXAGONAL])
     \<noteq> Inl RedundantDefinitionError"
  by (simp add: merge_def)

text \<open>
  What \<^verbatim>\<open>push_to_cells\<close> does to one cell: a lattice is stored through the setter, a
  \<^verbatim>\<open>Jump\<close> or a missing entry leaves the cell as it is.
\<close>

lemma cell_set_lattice_eq:
  "cell_set_lattice c l =
     Inr (c\<lparr>cell_lattice := (cell_lattice c)\<lparr>lat_mutated := True, lattice_value := OneLattice l\<rparr>\<rparr>)"
  by (simp add: cell_set_lattice_def lattice_setter_def)

lemma push_pairs_no_entries: "push_pairs cells [] = Inr cells"
  by (induction cells) auto

lemma push_pairs_short:
  "length ls \<le> length cells \<Longrightarrow>
     \<exists>cells'. push_pairs cells ls = Inr cells' \<and> length cells' = length cells
       \<and> drop (length ls) cells' = drop (length ls) cells"
proof (induction cells ls rule: push_pairs.induct)
  case 1
  show ?case by simp
next
  case (2 c cs)
  show ?case by (simp add: push_pairs_no_entries)
next
  case (3 ls)
  then show ?case by simp
next
  case (4 l ls)
  then show ?case by simp
next
  case (5 c cs ls)
  then show ?case by auto
next
  case (6 c cs l ls)
  then show ?case by (auto simp: cell_set_lattice_eq)
qed

text \<open>
  When every entry beyond the cells is a \<^verbatim>\<open>Jump\<close>, the loop raises nothing and pairs
  cells and entries as the specification describes.
\<close>

lemma push_pairs_spec:
  "list_all (\<lambda>e. e = Jump) (drop (length cells) ls) \<Longrightarrow>
     push_pairs cells ls = Inr (spec_push cells ls)"
proof (induction cells ls rule: push_pairs.induct)
  case 1
  show ?case by simp
next
  case (2 c cs)
  show ?case by (simp add: push_pairs_no_entries)
next
  case (3 ls)
  then show ?case by simp
next
  case (4 l ls)
  then show ?case by simp
next
  case (5 c cs ls)
  then show ?case by (simp add: pushed_def)
next
  case (6 c cs l ls)
  then show ?case by (simp add: cell_set_lattice_eq pushed_def)
qed

text \<open>
  C5 fails on the code: with more entries than cells, \<^verbatim>\<open>zip_longest\<close> pairs the extra
  entries with \<^verbatim>\<open>None\<close>, and an extra entry that is a lattice is assigned to
  \<^verbatim>\<open>None.lattice\<close>. One cell and the entries \<open>1, 2\<close>: the call raises
  \<^verbatim>\<open>AttributeError\<close> instead of ignoring the second entry.
\<close>

theorem push_to_cells_extra_entry_raises:
  "push_to_cells (data_lattice_input [Entry HEXAHEDRA, Entry HEXAGONAL]) (Some [empty_cell])
     = Inl (AttributeError ''NoneType object has no attribute lattice'')"
  by (simp add: push_to_cells_def data_lattice_input_def empty_cell_def
      check_redundant_definitions_def cell_set_lattice_eq)

section \<open>The number setter\<close>

lemma number_setter_failed:
  "snd (number_setter problem m v) \<noteq> None \<Longrightarrow> fst (number_setter problem m v) = m"
  by (auto simp: number_setter_def split: if_splits option.splits)

text \<open>
  C6. A call of the number setter with an argument that is not an int raises
  \<^verbatim>\<open>TypeError\<close>, with an int that is not positive \<^verbatim>\<open>ValueError\<close>, and with a positive
  int that the problem's materials already hold \<^verbatim>\<open>NumberConflictError\<close>; each time the
  material is what it was before the call, number and mutated flag included. A call
  that raises nothing sets the number and the mutated flag and nothing else. So in any
  sequence of calls, a call that raises leaves the material as the calls before it
  left it.
\<close>

theorem number_setter_rejects:
  "(\<not> is_int v \<longrightarrow>
      number_setter problem m v = (m, Some (TypeError ''number must be an int'')))
   \<and> (is_int v \<and> int_value v \<le> 0 \<longrightarrow>
      number_setter problem m v = (m, Some (ValueError ''number must be > 0'')))
   \<and> (is_int v \<and> 0 < int_value v \<and> int_value v \<in> set held \<longrightarrow>
      number_setter (Some held) m v = (m, Some NumberConflictError))
   \<and> (snd (number_setter problem m v) \<noteq> None \<longrightarrow> fst (number_setter problem m v) = m)
   \<and> (snd (number_setter problem m v) = None \<longrightarrow>
      fst (number_setter problem m v) = m\<lparr>mutated := True, material_number := int_value v\<rparr>)
   \<and> (snd (number_setter problem (set_numbers m calls) v) \<noteq> None \<longrightarrow>
      set_numbers m (calls @ [(problem, v)]) = set_numbers m calls)"
proof -
  have seq: "set_numbers m (calls @ [(problem, v)])
               = fst (number_setter problem (set_numbers m calls) v)"
    by (induction m calls rule: set_numbers.induct) auto
  show ?thesis
    unfolding seq using number_setter_failed [of problem]
    by (auto simp: number_setter_def check_number_def split: if_splits option.splits)
qed

theorem number_setter_rejects_witness:
  "\<not> is_int (PyStr ''3'')
   \<and> number_setter (Some [1, 2]) water (PyStr ''3'')
       = (water, Some (TypeError ''number must be an int''))
   \<and> is_int (PyInt 0) \<and> int_value (PyInt 0) \<le> 0
   \<and> number_setter (Some [1, 2]) water (PyInt 0) = (water, Some (ValueError ''number must be > 0''))
   \<and> is_int (PyInt 2) \<and> 0 < int_value (PyInt 2) \<and> int_value (PyInt 2) \<in> set [1, 2]
   \<and> number_setter (Some [1, 2]) water (PyInt 2) = (water, Some NumberConflictError)
   \<and> snd (number_setter (Some [1, 2]) water (PyInt 2)) \<noteq> None
   \<and> fst (number_setter (Some [1, 2]) water (PyInt 2)) = water
   \<and> snd (number_setter (Some [1, 2]) water (PyInt 3)) = None
   \<and> fst (number_setter (Some [1, 2]) water (PyInt 3))
       = water\<lparr>mutated := True, material_number := 3\<rparr>
   \<and> snd (number_setter (Some [1, 2, 3])
             (set_numbers water [(Some [1, 2], PyInt 3)]) (PyInt 2)) \<noteq> None
   \<and> set_numbers water [(Some [1, 2], PyInt 3), (Some [1, 2, 3], PyInt 2)]
       = set_numbers water [(Some [1, 2], PyInt 3)]"
  using number_setter_rejects [where v = "PyStr ''3''" and problem = "Some [1, 2]" and m = water]
    number_setter_rejects [where v = "PyInt 0" and problem = "Some [1, 2]" and m = water]
    number_setter_rejects [where v = "PyInt 2" and problem = "Some [1, 2]" and m = water
      and held = "[1, 2]"]
    number_setter_rejects [where v = "PyInt 3" and problem = "Some [1, 2]" and m = water]
    number_setter_rejects [where v = "PyInt 2" and problem = "Some [1, 2, 3]" and m = water
      and calls = "[(Some [1, 2], PyInt 3)]"]
  by (simp add: number_setter_def check_number_def)

section \<open>Parsing a material\<close>







lemma parse_first_pair:
  "Isotope lib a = Some i \<Longrightarrow> fortran_float lib b = Some v \<Longrightarrow>
   parse_components lib (a # b # ws) False self =
     parse_components lib ws True
       (self\<lparr>material_components := dict_set i \<bar>v\<bar> (material_components self),
              is_atom_fraction := Some (0 < v)\<rparr>)"
  by simp







lemma ex_lib [simp]:
  "Isotope example_library = map_of [(''1001'', 1001), (''8016'', 8016), (''92235'', 92235)]"
  "fortran_float example_library = map_of [(''0'', 0), (''1'', 1), (''2'', 2), (''-1'', - 1), (''-2'', - 2)]"
  by (simp_all add: example_library_def)




section \<open>Serialising and comparing materials\<close>

text \<open>
  C8. A material with no components is never serialised: whatever its mutated flag,
  the version and the library, \<^verbatim>\<open>validate\<close> and so \<^verbatim>\<open>format_for_mcnp_input\<close> raise
  \<^verbatim>\<open>IllegalState\<close>, and the message names the material by its number.
\<close>

theorem empty_material_not_serialized:
  "material_components self = [] \<longrightarrow>
     validate (self\<lparr>mutated := b\<rparr>)
       = Some (IllegalState (''Material: '' @ str_int (material_number self)
                               @ '' does not have any components defined.''))
     \<and> material_format_for_mcnp_input lib (self\<lparr>mutated := b\<rparr>) v
       = Inl (IllegalState (''Material: '' @ str_int (material_number self)
                              @ '' does not have any components defined.''))"
  by (simp add: material_format_for_mcnp_input_def validate_def)

lemma str_int_neg1: "str_int (- 1) = ''-1''"
  by (simp add: str_int_def)

theorem empty_material_not_serialized_witness:
  "(\<exists>m. Material_init example_library None NoComments = Inr m \<and> material_components m = []
        \<and> mutated m
        \<and> material_format_for_mcnp_input example_library m [6, 2, 0]
            = Inl (IllegalState ''Material: -1 does not have any components defined.'')
        \<and> material_format_for_mcnp_input example_library (m\<lparr>mutated := False\<rparr>) [5, 1, 60]
            = Inl (IllegalState ''Material: -1 does not have any components defined.''))"
proof -
  let ?m = "\<lparr>input_lines = [], mutated = True, comments = [],
      material_number = - 1, old_material_number = None, material_components = [],
      thermal_scattering = None, is_atom_fraction = None, parameter_string = None\<rparr> :: (nat, unit) material"
  have init: "Material_init example_library None NoComments = Inr ?m"
    by (simp add: Material_init_def MCNP_Card_init_def)
  have empty: "material_components ?m = []" by simp
  from empty_material_not_serialized [where self = ?m and b = True and lib = example_library
      and v = "[6, 2, 0]"]
    empty_material_not_serialized [where self = ?m and b = False and lib = example_library
      and v = "[5, 1, 60]"]
  have "material_format_for_mcnp_input example_library ?m [6, 2, 0]
            = Inl (IllegalState ''Material: -1 does not have any components defined.'')
        \<and> material_format_for_mcnp_input example_library (?m\<lparr>mutated := False\<rparr>) [5, 1, 60]
            = Inl (IllegalState ''Material: -1 does not have any components defined.'')"
    by (simp add: str_int_neg1)
  with init show ?thesis by simp
qed

lemma temp_hash_snoc:
  "temp_hash lib (cs @ [c])
     = OInt (py_hash lib (OTuple [temp_hash lib cs, OStr (str_isotope lib (fst c)), OFloat (snd c)]))"
  by (simp add: temp_hash_def)

lemma component_tuples_snoc:
  "component_tuples lib (cs @ [c])
     = component_tuples lib cs
       @ [OTuple [temp_hash lib cs, OStr (str_isotope lib (fst c)), OFloat (snd c)]]"
  by (simp add: component_tuples_def nth_append)

text \<open>
  When \<^verbatim>\<open>hash\<close> does not collide on the tuples hashed for two lists of components,
  nor \<^verbatim>\<open>str\<close> on their isotopes, equal values of \<^verbatim>\<open>temp_hash\<close> come from equal lists.
\<close>

lemma temp_hash_inj:
  "temp_hash lib xs = temp_hash lib ys \<Longrightarrow>
   inj_on (py_hash lib) (set (component_tuples lib xs) \<union> set (component_tuples lib ys)) \<Longrightarrow>
   inj_on (str_isotope lib) (fst ` set xs \<union> fst ` set ys) \<Longrightarrow> xs = ys"
proof (induction xs arbitrary: ys rule: rev_induct)
  case Nil
  show ?case
  proof (cases ys rule: rev_cases)
    case Nil
    then show ?thesis by simp
  next
    case (snoc ys' y)
    with Nil.prems(1) show ?thesis by (simp add: temp_hash_snoc) (simp add: temp_hash_def)
  qed
next
  case (snoc x xs)
  show ?case
  proof (cases ys rule: rev_cases)
    case Nil
    with snoc.prems(1) show ?thesis by (simp add: temp_hash_snoc) (simp add: temp_hash_def)
  next
    case ys: (snoc ys' y)
    let ?tx = "OTuple [temp_hash lib xs, OStr (str_isotope lib (fst x)), OFloat (snd x)]"
    let ?ty = "OTuple [temp_hash lib ys', OStr (str_isotope lib (fst y)), OFloat (snd y)]"
    from snoc.prems(1) ys have h: "py_hash lib ?tx = py_hash lib ?ty"
      by (simp add: temp_hash_snoc)
    have "?tx \<in> set (component_tuples lib (xs @ [x]))" "?ty \<in> set (component_tuples lib ys)"
      unfolding ys component_tuples_snoc by simp_all
    with snoc.prems(2) h have t: "?tx = ?ty" by (auto dest: inj_onD)
    then have temp: "temp_hash lib xs = temp_hash lib ys'"
      and str: "str_isotope lib (fst x) = str_isotope lib (fst y)" and f: "snd x = snd y"
      by simp_all
    have "fst x \<in> fst ` set (xs @ [x]) \<union> fst ` set ys"
      "fst y \<in> fst ` set (xs @ [x]) \<union> fst ` set ys"
      unfolding ys by simp_all
    with inj_onD [OF snoc.prems(3) str] have "fst x = fst y" by blast
    with f have xy: "x = y" by (simp add: prod_eq_iff)
    have sub: "set (component_tuples lib xs) \<union> set (component_tuples lib ys')
        \<subseteq> set (component_tuples lib (xs @ [x])) \<union> set (component_tuples lib ys)"
      unfolding ys component_tuples_snoc by auto
    have sub2: "fst ` set xs \<union> fst ` set ys' \<subseteq> fst ` set (xs @ [x]) \<union> fst ` set ys"
      unfolding ys by auto
    from snoc.IH [OF temp inj_on_subset [OF snoc.prems(2) sub] inj_on_subset [OF snoc.prems(3) sub2]]
    have "xs = ys'" .
    with xy ys show ?thesis by simp
  qed
qed

lemma material_hash_temp:
  "material_hash lib self
     = py_hash lib (OTuple [temp_hash lib (sorted_components self), OInt (material_number self)])"
  by (simp add: material_hash_def temp_hash_def)

lemma material_eq_same:
  assumes eq: "material_eq lib a b"
    and h: "inj_on (py_hash lib) (set (hashed_tuples lib a) \<union> set (hashed_tuples lib b))"
    and s: "inj_on (str_isotope lib)
              (fst ` set (material_components a) \<union> fst ` set (material_components b))"
  shows "material_number a = material_number b \<and> sorted_components a = sorted_components b
         \<and> set (material_components a) = set (material_components b)
         \<and> length (material_components a) = length (material_components b)"
proof -
  let ?ta = "OTuple [temp_hash lib (sorted_components a), OInt (material_number a)]"
  let ?tb = "OTuple [temp_hash lib (sorted_components b), OInt (material_number b)]"
  from eq have "py_hash lib ?ta = py_hash lib ?tb"
    by (simp add: material_eq_def material_hash_temp)
  moreover have "?ta \<in> set (hashed_tuples lib a)" "?tb \<in> set (hashed_tuples lib b)"
    by (simp_all add: hashed_tuples_def)
  ultimately have t: "?ta = ?tb" using h by (auto dest: inj_onD)
  then have temp: "temp_hash lib (sorted_components a) = temp_hash lib (sorted_components b)"
    and n: "material_number a = material_number b" by simp_all
  have h': "inj_on (py_hash lib) (set (component_tuples lib (sorted_components a))
      \<union> set (component_tuples lib (sorted_components b)))"
    by (rule inj_on_subset [OF h]) (auto simp: hashed_tuples_def)
  have s': "inj_on (str_isotope lib)
      (fst ` set (sorted_components a) \<union> fst ` set (sorted_components b))"
    using s by (simp add: sorted_components_def)
  from temp_hash_inj [OF temp h' s'] have sc: "sorted_components a = sorted_components b" .
  then have "set (sorted_components a) = set (sorted_components b)"
    "length (sorted_components a) = length (sorted_components b)" by simp_all
  then have "set (material_components a) = set (material_components b)"
    "length (material_components a) = length (material_components b)"
    by (simp_all add: sorted_components_def)
  with n sc show ?thesis by simp
qed

text \<open>
  C9. Two materials are equal exactly when their hashes are. The hash is a function of
  the number and of the components sorted by isotope: materials with the same number
  and the same sorted components have the same hash and are equal. It reads both: when
  \<^verbatim>\<open>hash\<close> does not collide on the tuples hashed for the two materials, nor \<^verbatim>\<open>str\<close> on
  their isotopes, equal materials have the same number and the same components. And
  changing the atom-fraction flag, the parameter string, the old number or the thermal
  scattering law of a material gives a material equal to it.
\<close>

theorem material_eq_hash:
  "material_eq lib a b = (material_hash lib a = material_hash lib b)
   \<and> (material_number a = material_number b \<and> sorted_components a = sorted_components b \<longrightarrow>
        material_hash lib a = material_hash lib b \<and> material_eq lib a b)
   \<and> (material_eq lib a b
        \<and> inj_on (py_hash lib) (set (hashed_tuples lib a) \<union> set (hashed_tuples lib b))
        \<and> inj_on (str_isotope lib)
            (fst ` set (material_components a) \<union> fst ` set (material_components b)) \<longrightarrow>
        material_number a = material_number b \<and> sorted_components a = sorted_components b
        \<and> set (material_components a) = set (material_components b)
        \<and> length (material_components a) = length (material_components b))
   \<and> material_eq lib a
        (a\<lparr>is_atom_fraction := flag, parameter_string := params, old_material_number := old,
           thermal_scattering := law\<rparr>)"
proof -
  have one: "material_eq lib a b = (material_hash lib a = material_hash lib b)"
    by (simp add: material_eq_def)
  have two: "material_number a = material_number b \<and> sorted_components a = sorted_components b \<longrightarrow>
        material_hash lib a = material_hash lib b \<and> material_eq lib a b"
    by (simp add: material_eq_def material_hash_def)
  have four: "material_eq lib a
        (a\<lparr>is_atom_fraction := flag, parameter_string := params, old_material_number := old,
           thermal_scattering := law\<rparr>)"
    by (simp add: material_eq_def material_hash_def sorted_components_def)
  from one two four material_eq_same [of lib a b] show ?thesis by blast
qed

lemma water_tuples:
  "hashed_tuples example_library water
     = [OTuple [OStr [], OStr ''1001'', OFloat 2], OTuple [OInt 6, OStr ''8016'', OFloat 1],
        OTuple [OInt 11, OInt 1]]
   \<and> hashed_tuples example_library heavy_water = hashed_tuples example_library water"
  by (simp add: hashed_tuples_def component_tuples_def sorted_components_def water_def
      heavy_water_def temp_hash_def example_library_def upt_rec)

lemma str_isotopes:
  "str_isotope example_library 1001 = ''1001'' \<and> str_isotope example_library 8016 = ''8016''"
  by (simp add: example_library_def)

lemma water_isotopes:
  "fst ` set (material_components water) \<union> fst ` set (material_components heavy_water)
     = {1001, 8016}"
  by (auto simp: water_def heavy_water_def)

lemma water_isotopes_inj:
  "inj_on (str_isotope example_library)
     (fst ` set (material_components water) \<union> fst ` set (material_components heavy_water))"
proof -
  have ne: "str_isotope example_library 1001 \<noteq> str_isotope example_library 8016"
    by (simp only: str_isotopes) simp
  show ?thesis unfolding water_isotopes
    by (rule inj_onI) (use ne in \<open>auto simp del: str_nat.simps\<close>)
qed

theorem material_eq_hash_witness:
  "material_number water = material_number heavy_water
   \<and> sorted_components water = sorted_components heavy_water
   \<and> material_eq example_library water heavy_water
   \<and> inj_on (py_hash example_library)
        (set (hashed_tuples example_library water)
           \<union> set (hashed_tuples example_library heavy_water))
   \<and> inj_on (str_isotope example_library)
        (fst ` set (material_components water) \<union> fst ` set (material_components heavy_water))
   \<and> set (material_components water) = set (material_components heavy_water)
   \<and> \<not> material_eq example_library water (water\<lparr>material_number := 2\<rparr>)
   \<and> \<not> material_eq example_library water (water\<lparr>material_components := [(1001, 2)]\<rparr>)"
proof -
  have n: "material_number water = material_number heavy_water"
    and sc: "sorted_components water = sorted_components heavy_water"
    by (simp_all add: water_def heavy_water_def sorted_components_def)
  have h: "inj_on (py_hash example_library)
        (set (hashed_tuples example_library water)
           \<union> set (hashed_tuples example_library heavy_water))"
    by (simp add: water_tuples) (simp add: example_library_def)
  note s = water_isotopes_inj
  from material_eq_hash [of example_library water heavy_water] n sc
  have eq: "material_eq example_library water heavy_water" by blast
  from material_eq_hash [of example_library water heavy_water] eq h s
  have same: "set (material_components water) = set (material_components heavy_water)" by blast
  have ne: "\<not> material_eq example_library water (water\<lparr>material_number := 2\<rparr>)"
    "\<not> material_eq example_library water (water\<lparr>material_components := [(1001, 2)]\<rparr>)"
    by (simp_all add: material_eq_def material_hash_def sorted_components_def water_def
        example_library_def)
  from n sc eq h s same ne show ?thesis by blast
qed

section \<open>Properties of line wrapping\<close>

subsection \<open>The loop ends\<close>


declare fill.simps(2) [simp del]




lemma weight_Cons [simp]: "weight (c # cs) = Suc (length c + weight cs)"
  by (simp add: weight_def)

lemma weight_Nil [simp]: "weight [] = 0"
  by (simp add: weight_def)












subsection \<open>Tokens and the splitter\<close>





















subsection \<open>Munged text\<close>



lemma munge_at_Nil [simp]: "munge_at col [] = []"
  by (simp add: munge_at_def)










subsection \<open>One line of the loop\<close>












subsection \<open>The head of a line\<close>



















subsection \<open>The indent of the later lines\<close>









subsection \<open>The tokens are kept\<close>









subsection \<open>The result of the wrapper\<close>









subsection \<open>wrap\_string\_for\_mcnp\<close>











end
